theory Spec2Isabelle
  imports Complex_Main
begin

section \<open>Promises and exceptions\<close>

text \<open>
  A settled promise is either fulfilled with a value or rejected with an error.  An
  expression that may throw synchronously is a value of \<open>js_error + 'a\<close>, with \<open>Inl\<close>
  for the exception.
\<close>

datatype js_error = Error string

datatype 'a promise = Rejected js_error | Fulfilled 'a

text \<open>\<^verbatim>\<open>p.catch(h)\<close>: a rejection is replaced by the handler's value.\<close>

definition catch_promise :: "'a promise \<Rightarrow> (js_error \<Rightarrow> 'a promise) \<Rightarrow> 'a promise" where
  "catch_promise p h = (case p of Rejected e \<Rightarrow> h e | Fulfilled v \<Rightarrow> Fulfilled v)"

text \<open>\<^verbatim>\<open>try { body } catch (e) { handler }\<close> around a body that may throw.\<close>

definition try_catch :: "js_error + 'a \<Rightarrow> (js_error \<Rightarrow> js_error + 'a) \<Rightarrow> js_error + 'a" where
  "try_catch body handler = (case body of Inl e \<Rightarrow> handler e | Inr v \<Rightarrow> Inr v)"

section \<open>Persistent session storage\<close>

text \<open>
  \<^verbatim>\<open>localStorage\<close>: string keys to string values; \<^verbatim>\<open>getItem\<close> of an absent key is
  \<^verbatim>\<open>null\<close>, here \<open>None\<close>.
\<close>

type_synonym localStorage = "string \<rightharpoonup> string"

definition getItem :: "localStorage \<Rightarrow> string \<Rightarrow> string option" where
  "getItem ls k = ls k"


definition removeItem :: "localStorage \<Rightarrow> string \<Rightarrow> localStorage" where
  "removeItem ls k = ls(k := None)"

section \<open>Request client (api.ts)\<close>





section \<open>Auth store (store.ts)\<close>

datatype UserRole = restaurant | ngo | driver | admin

record User =
  id :: int
  email :: string
  full_name :: string
  phone :: "string option"
  role :: UserRole
  is_active :: bool
  avatar_url :: "string option"
  created_at :: string

record 'r AuthState =
  user :: "User option"
  token :: "string option"
  isAuthenticated :: bool
  roleDashboardData :: "'r option"

text \<open>The store's initial state reads the token from storage.\<close>

definition useAuthStore_init :: "localStorage \<Rightarrow> 'r AuthState" where
  "useAuthStore_init ls =
     \<lparr>user = None, token = getItem ls ''token'',
      isAuthenticated = (case getItem ls ''token'' of None \<Rightarrow> False | Some t \<Rightarrow> t \<noteq> []),
      roleDashboardData = None\<rparr>"


text \<open>
  \<^verbatim>\<open>appwriteAuth.logout\<close> (lib/appwrite.ts) is an async function whose whole body is
  \<^verbatim>\<open>try { await account.deleteSession('current'); return true; } catch { return false; }\<close>.
  Its argument here is what the cloud call does: it throws, or it gives a promise that
  settles one way or the other.
\<close>

definition appwriteAuth_logout :: "js_error + unit promise \<Rightarrow> bool promise" where
  "appwriteAuth_logout deleteSession =
     (case try_catch
             (case deleteSession of
                Inl e \<Rightarrow> Inl e
              | Inr (Rejected e) \<Rightarrow> Inl e
              | Inr (Fulfilled _) \<Rightarrow> Inr True)
             (\<lambda>_. Inr False) of
        Inl e \<Rightarrow> Rejected e
      | Inr b \<Rightarrow> Fulfilled b)"

text \<open>
  \<^verbatim>\<open>logout: () => { localStorage.removeItem('token');
    appwriteAuth.logout().catch(() => {});
    set({ user: null, token: null, isAuthenticated: false, roleDashboardData: null }); }\<close>
  The result has the storage, the store and the promise left behind by the cloud call
  (its value \<open>None\<close> is the handler's \<^verbatim>\<open>undefined\<close>).
\<close>

definition logout ::
  "js_error + unit promise \<Rightarrow> localStorage \<times> 'r AuthState \<Rightarrow>
     localStorage \<times> 'r AuthState \<times> bool option promise" where
  "logout deleteSession w =
     (let ls' = removeItem (fst w) ''token'';
          p = catch_promise
                (case appwriteAuth_logout deleteSession of
                   Rejected e \<Rightarrow> Rejected e
                 | Fulfilled b \<Rightarrow> Fulfilled (Some b))
                (\<lambda>_. Fulfilled None)
      in (ls',
          (snd w)\<lparr>user := None, token := None, isAuthenticated := False,
                  roleDashboardData := None\<rparr>,
          p))"

section \<open>Remote store adapter (lib/firebase.ts)\<close>

text \<open>
  A document is a set of named fields.  The object handed to an upsert is a set of
  named fields too: the TypeScript interfaces are erased when the code runs, and the
  spread \<^verbatim>\<open>{...data, updated_at: serverTimestamp()}\<close> copies whatever properties the
  argument has.  \<open>FServerTimestamp\<close> is the sentinel that \<^verbatim>\<open>serverTimestamp()\<close> returns;
  the server replaces it by its own time, a \<open>FTimestamp\<close>.
\<close>

datatype fvalue =
    FNum rat
  | FStr string
  | FBool bool
  | FServerTimestamp
  | FTimestamp nat

type_synonym fields = "string \<rightharpoonup> fvalue"

type_synonym docref = "string \<times> string"

type_synonym firestore = "docref \<rightharpoonup> fields"

definition DRIVER_LOCATIONS_COL :: string where
  "DRIVER_LOCATIONS_COL = ''driver_locations''"

definition ACTIVE_DELIVERIES_COL :: string where
  "ACTIVE_DELIVERIES_COL = ''active_deliveries''"

definition serverTimestamp :: fvalue where
  "serverTimestamp = FServerTimestamp"

text \<open>
  What the SDK and the server do with one write: the SDK throws (a path it does not
  accept, for one) or the promise of the write rejects, or the server commits the write
  at its time \<open>t\<close>.
\<close>

datatype sdk_outcome = Throws js_error | Commits nat

text \<open>
  \<^verbatim>\<open>doc(firestore, col, id)\<close>: a reference to the document \<open>id\<close> of the collection.  The
  identifier is read from the argument (\<^verbatim>\<open>data.driver_id\<close>, \<^verbatim>\<open>data.delivery_id\<close>); a path
  segment that is missing or not a string makes the SDK throw.
\<close>

definition doc :: "string \<Rightarrow> fvalue option \<Rightarrow> js_error + docref" where
  "doc col seg =
     (case seg of
        Some (FStr i) \<Rightarrow> Inr (col, i)
      | _ \<Rightarrow> Inl (Error ''invalid document reference''))"

definition resolve_sentinels :: "nat \<Rightarrow> fields \<Rightarrow> fields" where
  "resolve_sentinels t w =
     (\<lambda>k. case w k of Some FServerTimestamp \<Rightarrow> Some (FTimestamp t) | v \<Rightarrow> v)"

text \<open>
  Modelled from the spec: \<^verbatim>\<open>setDoc(ref, fields, { merge: true })\<close> of the Firestore SDK,
  which is not among the sources.  The spec's merge-upsert: a write that creates the
  document if absent or overlays the provided fields onto the existing document, leaving
  unspecified fields untouched, with the server timestamp injected.
\<close>

definition setDoc_merge ::
  "firestore \<Rightarrow> docref \<Rightarrow> fields \<Rightarrow> sdk_outcome \<Rightarrow> js_error + firestore" where
  "setDoc_merge db docRef w out =
     (case out of
        Throws e \<Rightarrow> Inl e
      | Commits t \<Rightarrow>
          Inr (db(docRef \<mapsto>
                 (case db docRef of None \<Rightarrow> Map.empty | Some d \<Rightarrow> d)
                   ++ resolve_sentinels t w)))"

text \<open>
  \<^verbatim>\<open>async updateDriverLocation(data) { try {
      const docRef = doc(firestore, DRIVER_LOCATIONS_COL, data.driver_id);
      await setDoc(docRef, { ...data, updated_at: serverTimestamp() }, { merge: true });
      return true;
    } catch (error) { console.error(...); return false; } }\<close>
  The result is what the returned promise settles to (\<open>Inl\<close>: rejected), with the store.
\<close>

definition updateDriverLocation ::
  "firestore \<Rightarrow> fields \<Rightarrow> sdk_outcome \<Rightarrow> js_error + bool \<times> firestore" where
  "updateDriverLocation db data out =
     try_catch
       (case doc DRIVER_LOCATIONS_COL (data ''driver_id'') of
          Inl e \<Rightarrow> Inl e
        | Inr docRef \<Rightarrow>
            (case setDoc_merge db docRef (data(''updated_at'' \<mapsto> serverTimestamp)) out of
               Inl e \<Rightarrow> Inl e
             | Inr db' \<Rightarrow> Inr (True, db')))
       (\<lambda>error. Inr (False, db))"

text \<open>\<^verbatim>\<open>upsertActiveDelivery\<close> is the same code on the other collection and key.\<close>

definition upsertActiveDelivery ::
  "firestore \<Rightarrow> fields \<Rightarrow> sdk_outcome \<Rightarrow> js_error + bool \<times> firestore" where
  "upsertActiveDelivery db data out =
     try_catch
       (case doc ACTIVE_DELIVERIES_COL (data ''delivery_id'') of
          Inl e \<Rightarrow> Inl e
        | Inr docRef \<Rightarrow>
            (case setDoc_merge db docRef (data(''updated_at'' \<mapsto> serverTimestamp)) out of
               Inl e \<Rightarrow> Inl e
             | Inr db' \<Rightarrow> Inr (True, db')))
       (\<lambda>error. Inr (False, db))"

text \<open>One field of one document of the store; \<open>None\<close> when either is absent.\<close>

definition field_of :: "firestore \<Rightarrow> docref \<Rightarrow> string \<Rightarrow> fvalue option" where
  "field_of db docRef k = (case db docRef of None \<Rightarrow> None | Some d \<Rightarrow> d k)"

section \<open>Response payloads\<close>

text \<open>
  The body of a response (\<^verbatim>\<open>res.data\<close>) is whatever the server sent: a JavaScript
  value.  \<open>JUndefined\<close> is what reading a missing property gives.
\<close>

datatype json =
    JNull
  | JUndefined
  | JBool bool
  | JNum rat
  | JStr string
  | JArr "json list"
  | JObj "(string \<times> json) list"

text \<open>Truthiness, as \<^verbatim>\<open>if (v)\<close> tests it.\<close>

fun truthy :: "json \<Rightarrow> bool" where
  "truthy JNull = False"
| "truthy JUndefined = False"
| "truthy (JBool b) = b"
| "truthy (JNum n) = (n \<noteq> 0)"
| "truthy (JStr s) = (s \<noteq> [])"
| "truthy (JArr xs) = True"
| "truthy (JObj kvs) = True"

text \<open>
  \<^verbatim>\<open>v.k\<close> for a data property \<open>k\<close>: a TypeError on \<^verbatim>\<open>null\<close> and \<^verbatim>\<open>undefined\<close>; the
  field of an object; the length of an array or a string; \<^verbatim>\<open>undefined\<close> otherwise.
\<close>

fun get_prop :: "json \<Rightarrow> string \<Rightarrow> js_error + json" where
  "get_prop JNull k = Inl (Error ''TypeError'')"
| "get_prop JUndefined k = Inl (Error ''TypeError'')"
| "get_prop (JObj kvs) k = Inr (case map_of kvs k of None \<Rightarrow> JUndefined | Some v \<Rightarrow> v)"
| "get_prop (JArr xs) k = Inr (if k = ''length'' then JNum (of_nat (length xs)) else JUndefined)"
| "get_prop (JStr s) k = Inr (if k = ''length'' then JNum (of_nat (length s)) else JUndefined)"
| "get_prop v k = Inr JUndefined"


definition isArray :: "json \<Rightarrow> bool" where
  "isArray v = (case v of JArr _ \<Rightarrow> True | _ \<Rightarrow> False)"



text \<open>
  What a piece of view state holds: one of the module's constant datasets (the mock and
  fallback tables of the pages, named as in the source) or a value built from a
  response.  The constants are objects of their own, so a view shows fallback data
  exactly when its state is one of them.
\<close>

datatype view_data =
    MOCK_IMPACT
  | MOCK_ORDERS
  | RESTAURANTS_FALLBACK
  | NGOS_FALLBACK
  | DRIVERS_FALLBACK
  | DELIVERIES_FALLBACK
  | FromApi json



section \<open>Dashboard page\<close>

record dashboard_state =
  impact :: view_data
  orders :: view_data
  loading :: bool
  usingRealOrders :: bool

definition Dashboard_init :: dashboard_state where
  "Dashboard_init =
     \<lparr>impact = MOCK_IMPACT, orders = MOCK_ORDERS, loading = True, usingRealOrders = False\<rparr>"

text \<open>How the four requests of one \<^verbatim>\<open>fetchData\<close> call settle (the bodies of the responses).\<close>

record fetch_outcome =
  impactAPI_dashboard :: "json promise"
  surplusAPI_myOrders :: "json promise"
  surplusAPI_list :: "json promise"
  authAPI_roleData :: "json promise"

text \<open>\<^verbatim>\<open>setRoleDashboardData: (data) => set({ roleDashboardData: data })\<close>\<close>

definition setRoleDashboardData :: "'r \<Rightarrow> 'r AuthState \<Rightarrow> 'r AuthState" where
  "setRoleDashboardData d st = st\<lparr>roleDashboardData := Some d\<rparr>"

text \<open>
  \<^verbatim>\<open>const [impactRes, ordersRes, roleRes] = await Promise.all([
      impactAPI.dashboard().catch(() => ({ data: MOCK_IMPACT })),
      surplusAPI.myOrders(undefined, 20).catch(() =>
        surplusAPI.list(undefined, 20).catch(() => ({ data: null }))),
      authAPI.roleData().catch(() => ({ data: null })) ]);\<close>
  Each request has its own handler, so the combined promise is always fulfilled.
\<close>

definition impactRes_data :: "fetch_outcome \<Rightarrow> view_data" where
  "impactRes_data out =
     (case impactAPI_dashboard out of Rejected _ \<Rightarrow> MOCK_IMPACT | Fulfilled d \<Rightarrow> FromApi d)"

definition ordersRes_data :: "fetch_outcome \<Rightarrow> json" where
  "ordersRes_data out =
     (case surplusAPI_myOrders out of
        Fulfilled d \<Rightarrow> d
      | Rejected _ \<Rightarrow>
          (case surplusAPI_list out of Fulfilled d \<Rightarrow> d | Rejected _ \<Rightarrow> JNull))"

definition roleRes_data :: "fetch_outcome \<Rightarrow> json" where
  "roleRes_data out =
     (case authAPI_roleData out of Fulfilled d \<Rightarrow> d | Rejected _ \<Rightarrow> JNull)"

text \<open>
  The rest of \<^verbatim>\<open>fetchData(isInitial)\<close>, run when the combined promise is fulfilled:
  \<^verbatim>\<open>setImpact(impactRes.data);
    if (ordersRes.data !== null && ordersRes.data !== undefined) {
      setOrders(Array.isArray(ordersRes.data) ? ordersRes.data : []);
      setUsingRealOrders(true); }
    if (roleRes.data) setRoleDashboardData(roleRes.data);
    ... finally { if (isInitial) setLoading(false); }\<close>
  It updates the component's state and the auth store.
\<close>

definition Dashboard_fetchData ::
  "bool \<Rightarrow> fetch_outcome \<Rightarrow> dashboard_state \<times> json AuthState \<Rightarrow>
     dashboard_state \<times> json AuthState" where
  "Dashboard_fetchData isInitial out w =
     (let s1 = (fst w)\<lparr>impact := impactRes_data out\<rparr>;
          s2 = (if ordersRes_data out \<noteq> JNull \<and> ordersRes_data out \<noteq> JUndefined
                then s1\<lparr>orders := FromApi (if isArray (ordersRes_data out)
                                              then ordersRes_data out else JArr []),
                        usingRealOrders := True\<rparr>
                else s1);
          st = (if truthy (roleRes_data out)
                then setRoleDashboardData (roleRes_data out) (snd w) else snd w);
          s3 = (if isInitial then s2\<lparr>loading := False\<rparr> else s2)
      in (s3, st))"

text \<open>
  The mounted component.  The effect calls \<^verbatim>\<open>fetchData(true)\<close>, arms the 15 second
  refresh interval and registers the visibility listener; its cleanup clears the
  interval and removes the listener.  \<open>pending\<close> lists the calls of \<^verbatim>\<open>fetchData\<close> whose
  requests have not settled yet, by what started them.
\<close>

datatype fetch_source = Mount | RefreshInterval | VisibilityChange

record dashboard_instance =
  view :: dashboard_state
  auth :: "json AuthState"
  mounted :: bool
  pending :: "fetch_source list"

definition Dashboard_mount :: "json AuthState \<Rightarrow> dashboard_instance" where
  "Dashboard_mount st =
     \<lparr>view = Dashboard_init, auth = st, mounted = True, pending = [Mount]\<rparr>"

datatype dashboard_event =
    RefreshFires
  | Visibility string
  | Settles nat fetch_outcome
  | Unmount

text \<open>
  \<^verbatim>\<open>setInterval(() => fetchData(false), 15000)\<close> and
  \<^verbatim>\<open>handleVisibility = () => { if (document.visibilityState === 'visible') fetchData(false); }\<close>
  start a call each time they run.  \<open>Settles i out\<close>: the requests of the \<open>i\<close>-th
  pending call settle as \<open>out\<close> and the call finishes; the state updates of a component
  that is no longer mounted are dropped, the update of the store is not.
\<close>

fun Dashboard_step :: "dashboard_instance \<Rightarrow> dashboard_event \<Rightarrow> dashboard_instance" where
  "Dashboard_step c RefreshFires =
     (if mounted c then c\<lparr>pending := pending c @ [RefreshInterval]\<rparr> else c)"
| "Dashboard_step c (Visibility v) =
     (if mounted c \<and> v = ''visible''
      then c\<lparr>pending := pending c @ [VisibilityChange]\<rparr> else c)"
| "Dashboard_step c (Settles i out) =
     (if i < length (pending c)
      then (let r = Dashboard_fetchData (pending c ! i = Mount) out (view c, auth c)
            in c\<lparr>view := (if mounted c then fst r else view c),
                 auth := snd r,
                 pending := take i (pending c) @ drop (Suc i) (pending c)\<rparr>)
      else c)"
| "Dashboard_step c Unmount = c\<lparr>mounted := False\<rparr>"

definition Dashboard_run :: "dashboard_instance \<Rightarrow> dashboard_event list \<Rightarrow> dashboard_instance" where
  "Dashboard_run = foldl Dashboard_step"

section \<open>Tracking page\<close>










section \<open>Order status watcher (pages/SurplusPage.tsx)\<close>

text \<open>
  \<^verbatim>\<open>useEffect(() => { if (!createdOrder?.id) return;
      const interval = setInterval(async () => {
        try { const { data } = await surplusAPI.get(createdOrder.id);
              setOrderStage(data.status);
              if (data.status === 'delivered' || data.status === 'cancelled'
                  || data.status === 'expired') { clearInterval(interval); }
        } catch { /* ignore */ } }, 5000);
      return () => clearInterval(interval); }, [createdOrder]);\<close>
  \<open>interval_armed\<close>: the interval has not been cleared.  \<open>polls_issued\<close> counts the
  requests sent.
\<close>

record watcher =
  orderStage :: json
  interval_armed :: bool
  polls_issued :: nat

text \<open>The effect arms the interval only for an order with a truthy id.\<close>

definition start_watching :: "json \<Rightarrow> json \<Rightarrow> watcher" where
  "start_watching createdOrder stage =
     \<lparr>orderStage = stage,
      interval_armed =
        truthy (case get_prop createdOrder ''id'' of Inl _ \<Rightarrow> JUndefined | Inr v \<Rightarrow> v),
      polls_issued = 0\<rparr>"

datatype watcher_event =
    IntervalElapsed
  | PollSettles "json promise"
  | Cleanup

definition is_terminal :: "json \<Rightarrow> bool" where
  "is_terminal status =
     (status = JStr ''delivered'' \<or> status = JStr ''cancelled'' \<or> status = JStr ''expired'')"

text \<open>
  \<open>IntervalElapsed\<close>: five seconds have passed; the callback runs if the interval is
  still armed and sends a request.  \<open>PollSettles\<close>: a request settles and the callback
  resumes after its \<^verbatim>\<open>await\<close>; a rejection, and the TypeError of reading \<^verbatim>\<open>status\<close>
  from a \<^verbatim>\<open>null\<close> body, are caught and ignored.
\<close>

fun watcher_step :: "watcher \<Rightarrow> watcher_event \<Rightarrow> watcher" where
  "watcher_step w IntervalElapsed =
     (if interval_armed w then w\<lparr>polls_issued := Suc (polls_issued w)\<rparr> else w)"
| "watcher_step w (PollSettles (Rejected e)) = w"
| "watcher_step w (PollSettles (Fulfilled data)) =
     (case get_prop data ''status'' of
        Inl e \<Rightarrow> w
      | Inr status \<Rightarrow>
          (if is_terminal status
           then w\<lparr>orderStage := status, interval_armed := False\<rparr>
           else w\<lparr>orderStage := status\<rparr>))"
| "watcher_step w Cleanup = w\<lparr>interval_armed := False\<rparr>"

definition watcher_run :: "watcher \<Rightarrow> watcher_event list \<Rightarrow> watcher" where
  "watcher_run = foldl watcher_step"

text \<open>A response body whose status is \<open>s\<close>.\<close>

definition order_with_status :: "string \<Rightarrow> json promise" where
  "order_with_status s = Fulfilled (JObj [(''id'', JNum 1), (''status'', JStr s)])"

section \<open>Sample outcomes\<close>

text \<open>Concrete request outcomes and callbacks, for the evaluations below.\<close>

definition all_rejected :: fetch_outcome where
  "all_rejected =
     \<lparr>impactAPI_dashboard = Rejected (Error ''Network Error''),
      surplusAPI_myOrders = Rejected (Error ''Network Error''),
      surplusAPI_list = Rejected (Error ''Network Error''),
      authAPI_roleData = Rejected (Error ''Network Error'')\<rparr>"

definition all_fulfilled :: fetch_outcome where
  "all_fulfilled =
     \<lparr>impactAPI_dashboard = Fulfilled (JObj [(''total_kg_saved'', JNum 12)]),
      surplusAPI_myOrders = Fulfilled (JArr [JObj [(''id'', JNum 1)]]),
      surplusAPI_list = Fulfilled (JArr []),
      authAPI_roleData = Fulfilled (JObj [(''role'', JStr ''ngo'')])\<rparr>"


section \<open>Properties of the request client and the auth store\<close>




text \<open>
  Claim C10: whatever the cloud logout does (its call throws, its promise rejects or is
  fulfilled), logout removes the token from storage and leaves the store with no user, no
  token, no role dashboard data and \<open>isAuthenticated\<close> false; the promise it leaves behind
  is fulfilled, so nothing of the cloud failure reaches the caller.
\<close>

theorem C10_logout_always_completes_locally:
  "getItem (fst (logout cloud (ls, st))) ''token'' = None
   \<and> user (fst (snd (logout cloud (ls, st)))) = None
   \<and> token (fst (snd (logout cloud (ls, st)))) = None
   \<and> roleDashboardData (fst (snd (logout cloud (ls, st)))) = None
   \<and> isAuthenticated (fst (snd (logout cloud (ls, st)))) = False
   \<and> (\<exists>v. snd (snd (logout cloud (ls, st))) = Fulfilled v)"
proof -
  have settled: "\<exists>b. appwriteAuth_logout cloud = Fulfilled b"
    by (auto simp: appwriteAuth_logout_def try_catch_def split: sum.split promise.split)
  then obtain b where b: "appwriteAuth_logout cloud = Fulfilled b" ..
  show ?thesis
    by (simp add: logout_def Let_def getItem_def removeItem_def catch_promise_def b)
qed

section \<open>Properties of the remote store adapter\<close>

lemma updateDriverLocation_settles:
  "updateDriverLocation db data out =
     (case (data ''driver_id'', out) of
        (Some (FStr i), Commits t) \<Rightarrow>
          Inr (True, db((DRIVER_LOCATIONS_COL, i) \<mapsto>
                 (case db (DRIVER_LOCATIONS_COL, i) of None \<Rightarrow> Map.empty | Some d \<Rightarrow> d)
                   ++ resolve_sentinels t (data(''updated_at'' \<mapsto> serverTimestamp))))
      | _ \<Rightarrow> Inr (False, db))"
  by (simp add: updateDriverLocation_def try_catch_def doc_def setDoc_merge_def
      split: option.split fvalue.split sdk_outcome.split)

lemma upsertActiveDelivery_settles:
  "upsertActiveDelivery db data out =
     (case (data ''delivery_id'', out) of
        (Some (FStr i), Commits t) \<Rightarrow>
          Inr (True, db((ACTIVE_DELIVERIES_COL, i) \<mapsto>
                 (case db (ACTIVE_DELIVERIES_COL, i) of None \<Rightarrow> Map.empty | Some d \<Rightarrow> d)
                   ++ resolve_sentinels t (data(''updated_at'' \<mapsto> serverTimestamp))))
      | _ \<Rightarrow> Inr (False, db))"
  by (simp add: upsertActiveDelivery_def try_catch_def doc_def setDoc_merge_def
      split: option.split fvalue.split sdk_outcome.split)


lemma resolve_absent: "w k = None \<Longrightarrow> resolve_sentinels t w k = None"
  by (simp add: resolve_sentinels_def)

text \<open>
  Claim C6: a field that a write does not carry keeps, in every document, the value it
  had before the write, whether the write is committed or fails; so writing
  \<open>{lat: 10, lng: 20}\<close> and then \<open>{heading: 90}\<close> under the same identifier leaves a
  document with all three fields.  Both upsert operations behave so.  (Each write also
  carries the key field and \<open>updated_at\<close>.)
\<close>

theorem C6_merge_upsert_additive:
  "(w k = None \<and> k \<noteq> ''updated_at'' \<longrightarrow>
      (\<exists>b db'. updateDriverLocation db w out = Inr (b, db')
          \<and> (\<forall>r. field_of db' r k = field_of db r k))
    \<and> (\<exists>b db'. upsertActiveDelivery db w out = Inr (b, db')
          \<and> (\<forall>r. field_of db' r k = field_of db r k)))
   \<and> (\<exists>db1 db2 d.
         updateDriverLocation db
           [''driver_id'' \<mapsto> FStr i, ''lat'' \<mapsto> FNum 10, ''lng'' \<mapsto> FNum 20] (Commits t1)
           = Inr (True, db1)
       \<and> updateDriverLocation db1
           [''driver_id'' \<mapsto> FStr i, ''heading'' \<mapsto> FNum 90] (Commits t2)
           = Inr (True, db2)
       \<and> db2 (DRIVER_LOCATIONS_COL, i) = Some d
       \<and> d ''lat'' = Some (FNum 10) \<and> d ''lng'' = Some (FNum 20)
       \<and> d ''heading'' = Some (FNum 90))
   \<and> (\<exists>db1 db2 d.
         upsertActiveDelivery db
           [''delivery_id'' \<mapsto> FStr i, ''lat'' \<mapsto> FNum 10, ''lng'' \<mapsto> FNum 20] (Commits t1)
           = Inr (True, db1)
       \<and> upsertActiveDelivery db1
           [''delivery_id'' \<mapsto> FStr i, ''heading'' \<mapsto> FNum 90] (Commits t2)
           = Inr (True, db2)
       \<and> db2 (ACTIVE_DELIVERIES_COL, i) = Some d
       \<and> d ''lat'' = Some (FNum 10) \<and> d ''lng'' = Some (FNum 20)
       \<and> d ''heading'' = Some (FNum 90))"
proof -
  have frame1: "\<exists>b db'. updateDriverLocation db w out = Inr (b, db')
          \<and> (\<forall>r. field_of db' r k = field_of db r k)"
    if "w k = None" "k \<noteq> ''updated_at''"
    unfolding updateDriverLocation_settles using that
    by (auto simp: field_of_def map_add_def resolve_absent
        split: option.split fvalue.split sdk_outcome.split)
  have frame2: "\<exists>b db'. upsertActiveDelivery db w out = Inr (b, db')
          \<and> (\<forall>r. field_of db' r k = field_of db r k)"
    if "w k = None" "k \<noteq> ''updated_at''"
    unfolding upsertActiveDelivery_settles using that
    by (auto simp: field_of_def map_add_def resolve_absent
        split: option.split fvalue.split sdk_outcome.split)
  have ex1: "\<exists>db1 db2 d.
         updateDriverLocation db
           [''driver_id'' \<mapsto> FStr i, ''lat'' \<mapsto> FNum 10, ''lng'' \<mapsto> FNum 20] (Commits t1)
           = Inr (True, db1)
       \<and> updateDriverLocation db1
           [''driver_id'' \<mapsto> FStr i, ''heading'' \<mapsto> FNum 90] (Commits t2)
           = Inr (True, db2)
       \<and> db2 (DRIVER_LOCATIONS_COL, i) = Some d
       \<and> d ''lat'' = Some (FNum 10) \<and> d ''lng'' = Some (FNum 20)
       \<and> d ''heading'' = Some (FNum 90)"
    unfolding updateDriverLocation_settles
    by (simp add: map_add_def resolve_sentinels_def serverTimestamp_def)
  have ex2: "\<exists>db1 db2 d.
         upsertActiveDelivery db
           [''delivery_id'' \<mapsto> FStr i, ''lat'' \<mapsto> FNum 10, ''lng'' \<mapsto> FNum 20] (Commits t1)
           = Inr (True, db1)
       \<and> upsertActiveDelivery db1
           [''delivery_id'' \<mapsto> FStr i, ''heading'' \<mapsto> FNum 90] (Commits t2)
           = Inr (True, db2)
       \<and> db2 (ACTIVE_DELIVERIES_COL, i) = Some d
       \<and> d ''lat'' = Some (FNum 10) \<and> d ''lng'' = Some (FNum 20)
       \<and> d ''heading'' = Some (FNum 90)"
    unfolding upsertActiveDelivery_settles
    by (simp add: map_add_def resolve_sentinels_def serverTimestamp_def)
  from frame1 frame2 ex1 ex2 show ?thesis by blast
qed

theorem C6_merge_upsert_additive_witness:
  "\<exists>b db'.
      updateDriverLocation
        [(DRIVER_LOCATIONS_COL, ''d1'') \<mapsto> [''lat'' \<mapsto> FNum 10]]
        [''driver_id'' \<mapsto> FStr ''d1'', ''heading'' \<mapsto> FNum 90] (Commits 5) = Inr (b, db')
    \<and> field_of db' (DRIVER_LOCATIONS_COL, ''d1'') ''lat'' = Some (FNum 10)"
proof -
  have "[''driver_id'' \<mapsto> FStr ''d1'', ''heading'' \<mapsto> FNum 90] ''lat'' = None
        \<and> ''lat'' \<noteq> ''updated_at''"
    by simp
  with C6_merge_upsert_additive
         [of "[''driver_id'' \<mapsto> FStr ''d1'', ''heading'' \<mapsto> FNum 90]" "''lat''"
             "[(DRIVER_LOCATIONS_COL, ''d1'') \<mapsto> [''lat'' \<mapsto> FNum 10]]" "Commits 5"]
  obtain b db' where
    "updateDriverLocation
        [(DRIVER_LOCATIONS_COL, ''d1'') \<mapsto> [''lat'' \<mapsto> FNum 10]]
        [''driver_id'' \<mapsto> FStr ''d1'', ''heading'' \<mapsto> FNum 90] (Commits 5) = Inr (b, db')"
    and "\<forall>r. field_of db' r ''lat''
           = field_of [(DRIVER_LOCATIONS_COL, ''d1'') \<mapsto> [''lat'' \<mapsto> FNum 10]] r ''lat''"
    by blast
  then show ?thesis by (auto simp: field_of_def)
qed



section \<open>Properties of the order status watcher\<close>

lemma watcher_step_disarmed:
  "\<not> interval_armed w \<Longrightarrow>
     \<not> interval_armed (watcher_step w e) \<and> polls_issued (watcher_step w e) = polls_issued w"
  by (cases "(w, e)" rule: watcher_step.cases) (auto split: sum.split)

lemma watcher_run_disarmed:
  "\<not> interval_armed w \<Longrightarrow>
     \<not> interval_armed (watcher_run w evs) \<and> polls_issued (watcher_run w evs) = polls_issued w"
  unfolding watcher_run_def
  by (induction evs arbitrary: w) (simp_all add: watcher_step_disarmed)

lemma watcher_run_append:
  "watcher_run w (xs @ ys) = watcher_run (watcher_run w xs) ys"
  by (simp add: watcher_run_def)

text \<open>
  Claim C2: when the callback processes a response whose status is \<open>delivered\<close>,
  \<open>cancelled\<close> or \<open>expired\<close>, it clears the interval in that same step, and whatever
  happens afterwards (more time passing, late responses, the cleanup) no further request
  is sent.  For the responses pending, assigned, picked_up, delivered, each arriving
  before the next five seconds are over: the interval is still armed when the fourth
  request goes out, and after the fourth response exactly 4 requests have been sent and
  the interval is cleared, however much more time passes.
\<close>

theorem C2_watcher_termination:
  "(status \<in> {JStr ''delivered'', JStr ''cancelled'', JStr ''expired''}
      \<and> get_prop data ''status'' = Inr status \<longrightarrow>
        \<not> interval_armed (watcher_step w (PollSettles (Fulfilled data)))
      \<and> (\<forall>evs. polls_issued (watcher_run (watcher_step w (PollSettles (Fulfilled data))) evs)
                  = polls_issued w
              \<and> \<not> interval_armed
                    (watcher_run (watcher_step w (PollSettles (Fulfilled data))) evs)))
   \<and> interval_armed
        (watcher_run (start_watching (JObj [(''id'', JNum 7)]) (JStr ''pending''))
           [IntervalElapsed, PollSettles (order_with_status ''pending''),
            IntervalElapsed, PollSettles (order_with_status ''assigned''),
            IntervalElapsed, PollSettles (order_with_status ''picked_up''),
            IntervalElapsed])
   \<and> watcher_run (start_watching (JObj [(''id'', JNum 7)]) (JStr ''pending''))
        ([IntervalElapsed, PollSettles (order_with_status ''pending''),
          IntervalElapsed, PollSettles (order_with_status ''assigned''),
          IntervalElapsed, PollSettles (order_with_status ''picked_up''),
          IntervalElapsed, PollSettles (order_with_status ''delivered'')]
         @ replicate n IntervalElapsed)
       = \<lparr>orderStage = JStr ''delivered'', interval_armed = False, polls_issued = 4\<rparr>"
proof -
  have general: "\<not> interval_armed (watcher_step w (PollSettles (Fulfilled data)))
      \<and> (\<forall>evs. polls_issued (watcher_run (watcher_step w (PollSettles (Fulfilled data))) evs)
                  = polls_issued w
              \<and> \<not> interval_armed
                    (watcher_run (watcher_step w (PollSettles (Fulfilled data))) evs))"
    if "status \<in> {JStr ''delivered'', JStr ''cancelled'', JStr ''expired''}"
      and "get_prop data ''status'' = Inr status"
  proof -
    from that have fin: "is_terminal status" by (auto simp: is_terminal_def)
    with that(2) have off: "\<not> interval_armed (watcher_step w (PollSettles (Fulfilled data)))"
      and same: "polls_issued (watcher_step w (PollSettles (Fulfilled data))) = polls_issued w"
      by simp_all
    from watcher_run_disarmed [OF off] same off show ?thesis by simp
  qed
  have seven: "watcher_run (start_watching (JObj [(''id'', JNum 7)]) (JStr ''pending''))
           [IntervalElapsed, PollSettles (order_with_status ''pending''),
            IntervalElapsed, PollSettles (order_with_status ''assigned''),
            IntervalElapsed, PollSettles (order_with_status ''picked_up''),
            IntervalElapsed]
        = \<lparr>orderStage = JStr ''picked_up'', interval_armed = True, polls_issued = 4\<rparr>"
    by (simp add: watcher_run_def start_watching_def order_with_status_def is_terminal_def)
  have eight: "watcher_run (start_watching (JObj [(''id'', JNum 7)]) (JStr ''pending''))
           [IntervalElapsed, PollSettles (order_with_status ''pending''),
            IntervalElapsed, PollSettles (order_with_status ''assigned''),
            IntervalElapsed, PollSettles (order_with_status ''picked_up''),
            IntervalElapsed, PollSettles (order_with_status ''delivered'')]
        = \<lparr>orderStage = JStr ''delivered'', interval_armed = False, polls_issued = 4\<rparr>"
    by (simp add: watcher_run_def start_watching_def order_with_status_def is_terminal_def)
  have after: "watcher_run \<lparr>orderStage = JStr ''delivered'', interval_armed = False, polls_issued = 4\<rparr>
                 (replicate n IntervalElapsed)
        = \<lparr>orderStage = JStr ''delivered'', interval_armed = False, polls_issued = 4\<rparr>"
    unfolding watcher_run_def by (induction n) simp_all
  show ?thesis
    using general seven eight after by (simp only: watcher_run_append) simp
qed

theorem C2_watcher_termination_witness:
  "\<not> interval_armed
       (watcher_step \<lparr>orderStage = JStr ''in_transit'', interval_armed = True, polls_issued = 9\<rparr>
          (PollSettles (order_with_status ''cancelled'')))
   \<and> polls_issued
       (watcher_run
          (watcher_step \<lparr>orderStage = JStr ''in_transit'', interval_armed = True, polls_issued = 9\<rparr>
             (PollSettles (order_with_status ''cancelled'')))
          [IntervalElapsed, PollSettles (order_with_status ''assigned''), IntervalElapsed]) = 9"
proof -
  have hyp: "JStr ''cancelled'' \<in> {JStr ''delivered'', JStr ''cancelled'', JStr ''expired''}
      \<and> get_prop (JObj [(''id'', JNum 1), (''status'', JStr ''cancelled'')]) ''status''
          = Inr (JStr ''cancelled'')"
    by simp
  from hyp C2_watcher_termination
             [of "JStr ''cancelled''" "JObj [(''id'', JNum 1), (''status'', JStr ''cancelled'')]"
                 "\<lparr>orderStage = JStr ''in_transit'', interval_armed = True, polls_issued = 9\<rparr>"]
  show ?thesis
    unfolding order_with_status_def by (metis watcher.select_convs(3))
qed

section \<open>Properties of the page synchronizers\<close>


















text \<open>
  Claim C4 at a failing input.  The first call of \<open>fetchData\<close> loads live impact
  figures and orders; the refresh timer then starts a call whose requests are all
  rejected.  The orders and \<open>usingRealOrders\<close> stay as they were, but the impact figures
  are replaced by \<open>MOCK_IMPACT\<close>: the handler of the impact request supplies the mock
  object and \<open>setImpact\<close> stores it without a test, where the orders request supplies
  \<open>null\<close> and is tested.
\<close>

theorem C4_refetch_failure_replaces_impact:
  "view (Dashboard_run (Dashboard_mount (useAuthStore_init Map.empty))
           [Settles 0 all_fulfilled])
     = \<lparr>impact = FromApi (JObj [(''total_kg_saved'', JNum 12)]),
        orders = FromApi (JArr [JObj [(''id'', JNum 1)]]),
        loading = False, usingRealOrders = True\<rparr>
   \<and> view (Dashboard_run (Dashboard_mount (useAuthStore_init Map.empty))
           [Settles 0 all_fulfilled, RefreshFires, Settles 0 all_rejected])
     = \<lparr>impact = MOCK_IMPACT,
        orders = FromApi (JArr [JObj [(''id'', JNum 1)]]),
        loading = False, usingRealOrders = True\<rparr>"
  by (simp add: Dashboard_run_def Dashboard_mount_def Dashboard_init_def all_fulfilled_def
      all_rejected_def Dashboard_fetchData_def impactRes_data_def ordersRes_data_def
      roleRes_data_def isArray_def Let_def)

text \<open>
  Claim C5 as stated fails: with the fetch of an earlier return to the foreground still
  pending, a second return to the foreground starts another one.
\<close>

theorem C5_duplicate_fetch_counterexample:
  "VisibilityChange \<in> set (pending
       (Dashboard_run (Dashboard_mount (useAuthStore_init Map.empty))
          [Visibility ''visible'', Visibility ''hidden'']))
   \<and> pending
       (Dashboard_run (Dashboard_mount (useAuthStore_init Map.empty))
          [Visibility ''visible'', Visibility ''hidden'', Visibility ''visible''])
     = [Mount, VisibilityChange, VisibilityChange]"
  by (simp add: Dashboard_run_def Dashboard_mount_def)

text \<open>
  Claim C5, amended: there is no in-flight guard.  On a mounted component every
  visibility change to \<open>visible\<close> starts exactly one more call of \<open>fetchData\<close>, whatever
  calls are already pending; a change to any other visibility state, or any change after
  the cleanup has removed the listener, starts none.  The event itself changes no view
  state.
\<close>

theorem C5_visibility_starts_fetch:
  "pending (Dashboard_step c (Visibility v))
     = (if mounted c \<and> v = ''visible'' then pending c @ [VisibilityChange] else pending c)
   \<and> view (Dashboard_step c (Visibility v)) = view c
   \<and> mounted (Dashboard_step c (Visibility v)) = mounted c"
  by simp

theorem C5_visibility_starts_fetch_witness:
  "pending
     (Dashboard_step
        ((Dashboard_mount (useAuthStore_init Map.empty))\<lparr>pending := [Mount, VisibilityChange]\<rparr>)
        (Visibility ''visible''))
     = [Mount, VisibilityChange, VisibilityChange]
   \<and> pending
       (Dashboard_step
          ((Dashboard_mount (useAuthStore_init Map.empty))\<lparr>pending := [Mount, VisibilityChange]\<rparr>)
          (Visibility ''hidden''))
     = [Mount, VisibilityChange]"
  using C5_visibility_starts_fetch
          [of "(Dashboard_mount (useAuthStore_init Map.empty))\<lparr>pending := [Mount, VisibilityChange]\<rparr>"
              "''visible''"]
        C5_visibility_starts_fetch
          [of "(Dashboard_mount (useAuthStore_init Map.empty))\<lparr>pending := [Mount, VisibilityChange]\<rparr>"
              "''hidden''"]
  by (simp add: Dashboard_mount_def)

end
